theory Spec2Isabelle
  imports Complex_Main "HOL-Library.AList" "HOL-Library.List_Lexorder" "HOL-Library.Char_ord"
begin

section \<open>Data model of \<open>snips_nlu/intent_classifier/featurizer.py\<close>\<close>

text \<open>
  Python exceptions are values. Every function of the source that can raise returns
  \<open>error + 'a\<close>, with \<open>Inl\<close> the exception.
\<close>

datatype error = KeyError | AttributeError | ValueError | TypeError | IndexError | NotFittedError

text \<open>
  Python dictionaries are association lists with distinct keys, in insertion order
  (\<open>AList.update\<close>, \<open>AList.map_default\<close>, \<open>AList.delete\<close>, \<open>map_of\<close>). Python sets of strings
  are HOL sets; where the source iterates over a set (an order Python leaves open) the
  model enumerates it by \<open>sorted_list_of_set\<close>. Strings are ordered by code point,
  lexicographically, as Python orders them.
\<close>

type_synonym ('k, 'v) dict = "('k \<times> 'v) list"

text \<open>\<open>sep.join(xs)\<close>; \<open>"".join(xs)\<close> is \<open>concat xs\<close>.\<close>

fun join :: "string \<Rightarrow> string list \<Rightarrow> string" where
  "join sep [] = []"
| "join sep [x] = x"
| "join sep (x # y # ys) = x @ sep @ join sep (y # ys)"

subsection \<open>The dataset\<close>

text \<open>
  \<open>dataset[ENTITIES]\<close> maps an entity name to its data; \<open>entity_data[UTTERANCES]\<close> is
  iterated for the literal utterances of the entity.
\<close>

record entity =
  UTTERANCES :: "string list"

record dataset =
  ENTITIES :: "(string, entity) dict"

subsection \<open>The scikit-learn objects the source builds and patches\<close>

text \<open>
  \<open>TfidfTransformer(norm='l2', use_idf=True, smooth_idf=True, sublinear_tf=False)\<close>: the
  four constructor parameters and the fitted attribute \<open>_idf_diag\<close>, kept as the diagonal
  (\<open>_idf_diag.data\<close>); \<open>None\<close> is the attribute not being set.
\<close>

datatype norm_kind = L1 | L2

record tfidf_transformer =
  tt_norm :: "norm_kind option"
  tt_use_idf :: bool
  tt_smooth_idf :: bool
  tt_sublinear_tf :: bool
  idf_diag :: "real list option"

definition TfidfTransformer :: tfidf_transformer where
  \<comment> \<open>\<open>TfidfTransformer()\<close>, every parameter at its default\<close>
  "TfidfTransformer =
     \<lparr>tt_norm = Some L2, tt_use_idf = True, tt_smooth_idf = True, tt_sublinear_tf = False,
      idf_diag = None\<rparr>"

text \<open>
  \<open>TfidfVectorizer\<close>: the tokenizer it was built with, the fitted attribute
  \<open>vocabulary_\<close> (\<open>None\<close>: not set, which is what \<open>hasattr\<close> tests) and the transformer
  \<open>_tfidf\<close> it delegates the weighting to. The vectorizer hands its keyword arguments
  \<open>norm\<close>, \<open>use_idf\<close>, \<open>smooth_idf\<close> and \<open>sublinear_tf\<close> to that transformer.
\<close>

record tfidf_vectorizer =
  tokenizer :: "string \<Rightarrow> string list"
  vocabulary :: "(string, nat) dict option"
  tfidf :: tfidf_transformer

text \<open>
  Modelled from the spec: \<open>FeaturizerConfig\<close> (\<open>snips_nlu.pipeline.configs\<close>) is not among the
  sources. The spec calls it a set of named options controlling vectorizer behaviour,
  threaded through to the vectorizer and serialized; the source passes
  \<open>config.to_dict()\<close> as keyword arguments of \<open>TfidfVectorizer\<close>. It is the record of
  the one vectorizer option \<open>sublinear_tf\<close>; \<open>to_dict\<close> and \<open>from_dict\<close> carry it over
  unchanged.
\<close>

record featurizer_config =
  sublinear_tf :: bool

definition FeaturizerConfig :: featurizer_config where
  \<comment> \<open>\<open>FeaturizerConfig()\<close>, the default\<close>
  "FeaturizerConfig = \<lparr>sublinear_tf = False\<rparr>"

definition config_to_dict :: "featurizer_config \<Rightarrow> featurizer_config" where
  "config_to_dict c = c"

definition config_from_dict :: "featurizer_config \<Rightarrow> featurizer_config" where
  "config_from_dict d = d"

subsection \<open>The collaborators\<close>

text \<open>
  The functions the source imports (tokenization, normalization, stemming, resources,
  n-grams, scikit-learn's fitting and chi-squared test) are parameters of the model,
  collected in one record. \<open>stem\<close> returns \<open>None\<close> where the source's raises
  \<open>UnknownResource\<close>. \<open>get_all_ngrams\<close> returns dictionaries of which the source reads the
  key \<open>NGRAM\<close>. \<open>str_lower\<close> is Python's \<open>str.lower\<close>. \<open>CLUSTER_USED_PER_LANGUAGES\<close> is
  the module's global dictionary (empty when the module is loaded). Matrix entries and
  p-values are reals: rounding and NaN are outside the model.
\<close>

record ngram =
  NGRAM :: string

record env =
  tokenize_light :: "string \<Rightarrow> string \<Rightarrow> string list"
  normalize_str :: "string \<Rightarrow> string"
  stem :: "string \<Rightarrow> string \<Rightarrow> string option"
  str_lower :: "string \<Rightarrow> string"
  get_stop_words :: "string \<Rightarrow> string set"
  get_word_clusters :: "string \<Rightarrow> string \<rightharpoonup> (string \<rightharpoonup> string)"
  CLUSTER_USED_PER_LANGUAGES :: "string \<rightharpoonup> string"
  get_all_ngrams :: "string list \<Rightarrow> ngram list"
  get_default_sep :: "string \<Rightarrow> string"
  is_builtin_entity :: "string \<Rightarrow> bool"
  vectorizer_fit_transform ::
    "tfidf_vectorizer \<Rightarrow> string list \<Rightarrow> error + (tfidf_vectorizer \<times> real list list)"
  vectorizer_transform :: "tfidf_vectorizer \<Rightarrow> string list \<Rightarrow> error + real list list"
  chi2 :: "real list list \<Rightarrow> int list \<Rightarrow> error + (real list \<times> real list)"

subsection \<open>The featurizer\<close>

record featurizer =
  config :: featurizer_config
  language :: string
  tfidf_vectorizer :: tfidf_vectorizer
  best_features :: "nat list option"
  pvalue_threshold :: real
  entity_utterances_to_feature_names :: "(string, string set) dict option"
  unknown_words_replacement_string :: "string option"

text \<open>What \<open>fit\<close> returns when it does not raise: \<open>None\<close> or \<open>self\<close>.\<close>

datatype fit_return = ReturnsNone | ReturnsSelf

section \<open>Module-level functions\<close>

definition get_tfidf_vectorizer :: "env \<Rightarrow> string \<Rightarrow> featurizer_config \<Rightarrow> tfidf_vectorizer" where
  \<comment> \<open>\<open>TfidfVectorizer(tokenizer=lambda x: tokenize_light(x, language), **extra_args)\<close>\<close>
  "get_tfidf_vectorizer e lang extra_args =
     \<lparr>tokenizer = (\<lambda>x. tokenize_light e x lang),
      vocabulary = None,
      tfidf = \<lparr>tt_norm = Some L2, tt_use_idf = True, tt_smooth_idf = True,
               tt_sublinear_tf = sublinear_tf extra_args, idf_diag = None\<rparr>\<rparr>"

definition get_tokens_clusters :: "env \<Rightarrow> string list \<Rightarrow> string \<Rightarrow> string \<Rightarrow> error + string list" where
  \<comment> \<open>\<open>[clusters[t] for t in tokens if t in clusters]\<close>; \<open>KeyError\<close> without the cluster\<close>
  "get_tokens_clusters e tokens lang cluster_name =
     (case get_word_clusters e lang cluster_name of
        None \<Rightarrow> Inl KeyError
      | Some clusters \<Rightarrow> Inr (List.map_filter clusters tokens))"

definition entity_name_to_feature :: "env \<Rightarrow> string \<Rightarrow> string \<Rightarrow> string" where
  "entity_name_to_feature e entity_name lang =
     ''entityfeature'' @ concat (tokenize_light e entity_name lang)"

definition normalize_stem :: "env \<Rightarrow> string \<Rightarrow> string \<Rightarrow> string" where
  "normalize_stem e text lang =
     (let normalized_stemmed = normalize_str e text in
      case stem e normalized_stemmed lang of
        Some stemmed \<Rightarrow> stemmed
      | None \<Rightarrow> normalized_stemmed)"

text \<open>
  \<open>_get_word_cluster_features\<close>: the loop over the n-grams, with the list built so far.
  \<open>get_word_clusters(language)[cluster_name]\<close> is evaluated in each iteration and raises
  \<open>KeyError\<close> when the resource has no such cluster.
\<close>

fun word_cluster_loop :: "env \<Rightarrow> string \<Rightarrow> string \<Rightarrow> ngram list \<Rightarrow> string list \<Rightarrow> error + string list" where
  "word_cluster_loop e lang cluster_name [] cluster_features = Inr cluster_features"
| "word_cluster_loop e lang cluster_name (g # ngrams) cluster_features =
     (case get_word_clusters e lang cluster_name of
        None \<Rightarrow> Inl KeyError
      | Some clusters \<Rightarrow>
          (case clusters (str_lower e (NGRAM g)) of
             None \<Rightarrow> word_cluster_loop e lang cluster_name ngrams cluster_features
           | Some cluster \<Rightarrow>
               word_cluster_loop e lang cluster_name ngrams (cluster_features @ [cluster])))"

definition get_word_cluster_features :: "env \<Rightarrow> string list \<Rightarrow> string \<Rightarrow> error + string list" where
  "get_word_cluster_features e query_tokens lang =
     (case CLUSTER_USED_PER_LANGUAGES e lang of
        None \<Rightarrow> Inr []
      | Some cluster_name \<Rightarrow>
          if cluster_name = [] then Inr []
          else word_cluster_loop e lang cluster_name (get_all_ngrams e query_tokens) [])"

text \<open>
  \<open>_get_dataset_entities_features\<close>: \<open>entity_features += lexicon.get(ngram[NGRAM], [])\<close>
  for each n-gram. The lexicon argument is \<open>None\<close> on a featurizer that was never fitted;
  \<open>None.get\<close> raises \<open>AttributeError\<close>.
\<close>

fun entities_loop :: "(string, string set) dict option \<Rightarrow> ngram list \<Rightarrow> string list \<Rightarrow> error + string list" where
  "entities_loop lexicon [] entity_features = Inr entity_features"
| "entities_loop lexicon (g # ngrams) entity_features =
     (case lexicon of
        None \<Rightarrow> Inl AttributeError
      | Some d \<Rightarrow>
          (case map_of d (NGRAM g) of
             None \<Rightarrow> entities_loop lexicon ngrams entity_features
           | Some names \<Rightarrow>
               entities_loop lexicon ngrams (entity_features @ sorted_list_of_set names)))"

definition get_dataset_entities_features ::
    "env \<Rightarrow> string list \<Rightarrow> (string, string set) dict option \<Rightarrow> error + string list" where
  "get_dataset_entities_features e normalized_stemmed_tokens entity_utterances_to_entity_names =
     entities_loop entity_utterances_to_entity_names (get_all_ngrams e normalized_stemmed_tokens) []"

definition preprocess_query ::
    "env \<Rightarrow> string \<Rightarrow> string \<Rightarrow> (string, string set) dict option \<Rightarrow> error + string" where
  "preprocess_query e query lang entity_utterances_to_features_names =
     (let query_tokens = tokenize_light e query lang in
      case get_word_cluster_features e query_tokens lang of
        Inl err \<Rightarrow> Inl err
      | Inr word_clusters_features \<Rightarrow>
          (let normalized_stemmed_tokens = map (\<lambda>t. normalize_stem e t lang) query_tokens in
           case get_dataset_entities_features e normalized_stemmed_tokens
                  entity_utterances_to_features_names of
             Inl err \<Rightarrow> Inl err
           | Inr entities_features \<Rightarrow>
               (let features0 = join (get_default_sep e lang) normalized_stemmed_tokens;
                    features1 = (if entities_features \<noteq> []
                                 then features0 @ '' '' @ join '' '' (sort entities_features)
                                 else features0);
                    features2 = (if word_clusters_features \<noteq> []
                                 then features1 @ '' '' @ join '' '' (sort word_clusters_features)
                                 else features1)
                in Inr features2)))"

text \<open>
  \<open>_get_utterances_to_features_names\<close>: a \<open>defaultdict(set)\<close> filled over the entities
  that are not builtin and their utterances.
\<close>

definition get_utterances_to_features_names :: "env \<Rightarrow> dataset \<Rightarrow> string \<Rightarrow> (string, string set) dict" where
  "get_utterances_to_features_names e ds lang =
     fold (\<lambda>(entity_name, entity_data) utterances_to_features.
             if is_builtin_entity e entity_name then utterances_to_features
             else fold (\<lambda>u d. AList.map_default u {entity_name_to_feature e entity_name lang}
                                 (insert (entity_name_to_feature e entity_name lang)) d)
                    (UTTERANCES entity_data) utterances_to_features)
       (ENTITIES ds) []"

section \<open>The class \<open>Featurizer\<close>\<close>

definition Featurizer_init ::
    "env \<Rightarrow> string \<Rightarrow> string option \<Rightarrow> featurizer_config \<Rightarrow> tfidf_vectorizer option \<Rightarrow>
     nat list option \<Rightarrow> (string, string set) dict option \<Rightarrow> real \<Rightarrow> featurizer" where
  \<comment> \<open>\<open>__init__\<close>; the defaults of the source are \<open>FeaturizerConfig()\<close>, \<open>None\<close>, \<open>None\<close>, \<open>None\<close>, \<open>0.4\<close>\<close>
  "Featurizer_init e lang unknown cfg vectorizer best lexicon threshold =
     \<lparr>config = cfg,
      language = lang,
      tfidf_vectorizer =
        (case vectorizer of
           None \<Rightarrow> get_tfidf_vectorizer e lang (config_to_dict cfg)
         | Some v \<Rightarrow> v),
      best_features = best,
      pvalue_threshold = threshold,
      entity_utterances_to_feature_names = lexicon,
      unknown_words_replacement_string = unknown\<rparr>"

fun preprocess_queries :: "env \<Rightarrow> featurizer \<Rightarrow> string list \<Rightarrow> error + string list" where
  "preprocess_queries e self [] = Inr []"
| "preprocess_queries e self (q # queries) =
     (case preprocess_query e q (language self) (entity_utterances_to_feature_names self) of
        Inl err \<Rightarrow> Inl err
      | Inr processed_query \<Rightarrow>
          (case preprocess_queries e self queries of
             Inl err \<Rightarrow> Inl err
           | Inr preprocessed_queries \<Rightarrow> Inr (processed_query # preprocessed_queries)))"

subsection \<open>\<open>fit\<close>: the entity lexicon (lines 49 to 61)\<close>

definition fit_entity_lexicon :: "env \<Rightarrow> string \<Rightarrow> string option \<Rightarrow> dataset \<Rightarrow> (string, string set) dict" where
  "fit_entity_lexicon e lang unknown ds =
     (let utterances_to_features = get_utterances_to_features_names e ds lang;
          normalized_utterances_to_features =
            fold (\<lambda>(k, v) d. AList.map_default (normalize_stem e k lang) v (\<lambda>s. s \<union> v) d)
              utterances_to_features []
      in case unknown of
           None \<Rightarrow> normalized_utterances_to_features
         | Some u \<Rightarrow>
             if map_of normalized_utterances_to_features u \<noteq> None
             then AList.delete u normalized_utterances_to_features
             else normalized_utterances_to_features)"

subsection \<open>\<open>fit\<close>: the selection (lines 75 to 89)\<close>

text \<open>\<open>pval.min()\<close>: numpy raises \<open>ValueError\<close> on an empty array.\<close>

fun array_min :: "real list \<Rightarrow> error + real" where
  "array_min [] = Inl ValueError"
| "array_min (x # xs) = Inr (fold min xs x)"

text \<open>
  The fallback comprehension \<open>[idx for idx, val in enumerate(pval) if val == pval.min()]\<close>:
  the minimum is taken anew for each element, so never of an empty vector.
\<close>

fun fallback_select :: "real list \<Rightarrow> (nat \<times> real) list \<Rightarrow> error + nat list" where
  "fallback_select pval [] = Inr []"
| "fallback_select pval ((idx, val) # rest) =
     (case array_min pval of
        Inl err \<Rightarrow> Inl err
      | Inr m \<Rightarrow>
          (case fallback_select pval rest of
             Inl err \<Rightarrow> Inl err
           | Inr chosen \<Rightarrow> Inr (if val = m then idx # chosen else chosen)))"

definition select_best_features :: "real list \<Rightarrow> real \<Rightarrow> error + nat list" where
  \<comment> \<open>lines 76 to 80\<close>
  "select_best_features pval threshold =
     (let best = map fst (filter (\<lambda>(i, v). v < threshold) (enumerate 0 pval)) in
      if best = [] then fallback_select pval (enumerate 0 pval) else Inr best)"

record feature_name =
  fn_word :: string
  fn_pval :: real

definition features_index :: "(string, nat) dict \<Rightarrow> (nat, string) dict" where
  \<comment> \<open>\<open>{vocabulary_[x]: x for x in vocabulary_}\<close>\<close>
  "features_index vocab = fold (\<lambda>(x, i) d. AList.update i x d) vocab []"

text \<open>
  Lines 82 to 84: the dictionary \<open>feature_names\<close>. \<open>features_idx[i]\<close> raises \<open>KeyError\<close> for an
  index that is no value of the vocabulary, \<open>pval[i]\<close> raises \<open>IndexError\<close> out of range.
\<close>

fun build_feature_names ::
    "(nat, string) dict \<Rightarrow> real list \<Rightarrow> nat list \<Rightarrow> (nat, feature_name) dict \<Rightarrow>
     error + (nat, feature_name) dict" where
  "build_feature_names features_idx pval [] feature_names = Inr feature_names"
| "build_feature_names features_idx pval (i # best) feature_names =
     (case map_of features_idx i of
        None \<Rightarrow> Inl KeyError
      | Some w \<Rightarrow>
          if i < length pval
          then build_feature_names features_idx pval best
                 (AList.update i \<lparr>fn_word = w, fn_pval = pval ! i\<rparr> feature_names)
          else Inl IndexError)"

text \<open>\<open>list.remove(x)\<close>: the first occurrence goes; \<open>ValueError\<close> when there is none.\<close>

fun list_remove :: "'a \<Rightarrow> 'a list \<Rightarrow> error + 'a list" where
  "list_remove x [] = Inl ValueError"
| "list_remove x (y # ys) =
     (if x = y then Inr ys
      else case list_remove x ys of Inl err \<Rightarrow> Inl err | Inr r \<Rightarrow> Inr (y # r))"

text \<open>
  Lines 86 to 89: the loop over the keys of \<open>feature_names\<close>, in the dictionary's order, removing
  from the list \<open>self.best_features\<close>.
\<close>

fun demote_stop_words ::
    "string set \<Rightarrow> real \<Rightarrow> (nat, feature_name) dict \<Rightarrow> nat list \<Rightarrow> error + nat list" where
  "demote_stop_words stop_words threshold [] best = Inr best"
| "demote_stop_words stop_words threshold ((feat, f) # feature_names) best =
     (if fn_word f \<in> stop_words
      then if fn_pval f > threshold / 2
           then (case list_remove feat best of
                   Inl err \<Rightarrow> Inl err
                 | Inr best' \<Rightarrow> demote_stop_words stop_words threshold feature_names best')
           else demote_stop_words stop_words threshold feature_names best
      else demote_stop_words stop_words threshold feature_names best)"

text \<open>Lines 76 to 89 in one: what \<open>self.best_features\<close> holds when the three steps are through.\<close>

definition final_selection ::
    "(nat, string) dict \<Rightarrow> string set \<Rightarrow> real list \<Rightarrow> real \<Rightarrow> error + nat list" where
  "final_selection features_idx stop_words pval threshold =
     (case select_best_features pval threshold of
        Inl err \<Rightarrow> Inl err
      | Inr best \<Rightarrow>
          (case build_feature_names features_idx pval best [] of
             Inl err \<Rightarrow> Inl err
           | Inr feature_names \<Rightarrow> demote_stop_words stop_words threshold feature_names best))"

subsection \<open>\<open>fit\<close>, \<open>transform\<close>, \<open>fit_transform\<close>\<close>

text \<open>
  \<open>fit\<close> mutates \<open>self\<close>: the model returns the featurizer as \<open>fit\<close> leaves it, and what
  \<open>fit\<close> returns or raises.
\<close>

definition fit ::
    "env \<Rightarrow> featurizer \<Rightarrow> dataset \<Rightarrow> string list \<Rightarrow> int list \<Rightarrow> featurizer \<times> (error + fit_return)" where
  "fit e self ds queries y =
     (let self1 = self\<lparr>entity_utterances_to_feature_names :=
                   Some (fit_entity_lexicon e (language self)
                           (unknown_words_replacement_string self) ds)\<rparr>
      in
      if list_all (\<lambda>q. concat (tokenize_light e q (language self1)) = []) queries
      then (self1, Inr ReturnsNone)
      else
       (case preprocess_queries e self1 queries of
          Inl err \<Rightarrow> (self1, Inl err)
        | Inr preprocessed_queries \<Rightarrow>
       (case vectorizer_fit_transform e (tfidf_vectorizer self1) preprocessed_queries of
          Inl err \<Rightarrow> (self1, Inl err)
        | Inr (vectorizer, X_train_tfidf) \<Rightarrow>
       (let self2 = self1\<lparr>tfidf_vectorizer := vectorizer\<rparr> in
       (case vocabulary vectorizer of
          None \<Rightarrow> (self2, Inl AttributeError)
        | Some vocab \<Rightarrow>
       (let features_idx = features_index vocab;
            stop_words = get_stop_words e (language self2)
        in
       (case chi2 e X_train_tfidf y of
          Inl err \<Rightarrow> (self2, Inl err)
        | Inr (stat, pval) \<Rightarrow>
       (case select_best_features pval (pvalue_threshold self2) of
          Inl err \<Rightarrow> (self2, Inl err)
        | Inr best \<Rightarrow>
       (let self3 = self2\<lparr>best_features := Some best\<rparr> in
       (case build_feature_names features_idx pval best [] of
          Inl err \<Rightarrow> (self3, Inl err)
        | Inr feature_names \<Rightarrow>
       (case demote_stop_words stop_words (pvalue_threshold self3) feature_names best of
          Inl err \<Rightarrow> (self3, Inl err)
        | Inr best' \<Rightarrow> (self3\<lparr>best_features := Some best'\<rparr>, Inr ReturnsSelf))))))))))))"

text \<open>
  \<open>X[:, self.best_features]\<close>. A matrix is the list of its rows; an index beyond a row
  raises \<open>IndexError\<close>, and so does \<open>None\<close> in place of the index list.
\<close>

definition select_columns :: "real list list \<Rightarrow> nat list option \<Rightarrow> error + real list list" where
  "select_columns X best =
     (case best of
        None \<Rightarrow> Inl IndexError
      | Some idx \<Rightarrow>
          if list_all (\<lambda>row. list_all (\<lambda>i. i < length row) idx) X
          then Inr (map (\<lambda>row. map (\<lambda>i. row ! i) idx) X)
          else Inl IndexError)"

definition transform :: "env \<Rightarrow> featurizer \<Rightarrow> string list \<Rightarrow> error + real list list" where
  "transform e self queries =
     (case preprocess_queries e self queries of
        Inl err \<Rightarrow> Inl err
      | Inr preprocessed_queries \<Rightarrow>
          (case vectorizer_transform e (tfidf_vectorizer self) preprocessed_queries of
             Inl err \<Rightarrow> Inl err
           | Inr X_train_tfidf \<Rightarrow> select_columns X_train_tfidf (best_features self)))"

text \<open>
  \<open>self.fit(dataset, queries, y).transform(queries)\<close>: when \<open>fit\<close> returns \<open>None\<close> the
  attribute lookup \<open>None.transform\<close> raises \<open>AttributeError\<close>.
\<close>

definition fit_transform ::
    "env \<Rightarrow> featurizer \<Rightarrow> dataset \<Rightarrow> string list \<Rightarrow> int list \<Rightarrow>
     featurizer \<times> (error + real list list)" where
  "fit_transform e self ds queries y =
     (case fit e self ds queries y of
        (self', Inl err) \<Rightarrow> (self', Inl err)
      | (self', Inr ReturnsNone) \<Rightarrow> (self', Inl AttributeError)
      | (self', Inr ReturnsSelf) \<Rightarrow> (self', transform e self' queries))"

subsection \<open>\<open>to_dict\<close> and \<open>from_dict\<close>\<close>

text \<open>
  The snapshot is a dictionary with fixed keys. A key that is missing is \<open>None\<close>; under a
  key whose value may be \<open>null\<close> the value is an option of its own. The lexicon's sets are
  lists in the snapshot.
\<close>

record vectorizer_dict =
  vd_vocab :: "(string, nat) dict option option"
  vd_idf_diag :: "real list option option"

record featurizer_dict =
  d_language_code :: "string option"
  d_tfidf_vectorizer :: "vectorizer_dict option"
  d_best_features :: "nat list option option"
  d_pvalue_threshold :: "real option"
  d_entity_utterances_to_feature_names :: "(string, string list) dict option"
  d_config :: "featurizer_config option"
  d_unknown_words_replacement_string :: "string option option"

text \<open>
  \<open>to_dict\<close>: on a fitted vectorizer, \<open>_tfidf._idf_diag\<close> on a transformer without it and
  \<open>iteritems(None)\<close> raise \<open>AttributeError\<close>.
\<close>

definition to_dict :: "featurizer \<Rightarrow> error + featurizer_dict" where
  "to_dict self =
     (case (case vocabulary (tfidf_vectorizer self) of
              Some vocabulary_ \<Rightarrow>
                (case idf_diag (tfidf (tfidf_vectorizer self)) of
                   None \<Rightarrow> Inl AttributeError
                 | Some diag \<Rightarrow>
                     (case entity_utterances_to_feature_names self of
                        None \<Rightarrow> Inl AttributeError
                      | Some lexicon \<Rightarrow>
                          Inr (Some vocabulary_, Some diag,
                               map (\<lambda>(k, v). (k, sorted_list_of_set v)) lexicon)))
            | None \<Rightarrow> Inr (None, None, []))
      of
        Inl err \<Rightarrow> Inl err
      | Inr (vocab, idf, entity_utterances_to_entity_names) \<Rightarrow>
          Inr \<lparr>d_language_code = Some (language self),
               d_tfidf_vectorizer = Some \<lparr>vd_vocab = Some vocab, vd_idf_diag = Some idf\<rparr>,
               d_best_features = Some (best_features self),
               d_pvalue_threshold = Some (pvalue_threshold self),
               d_entity_utterances_to_feature_names = Some entity_utterances_to_entity_names,
               d_config = Some (config_to_dict (config self)),
               d_unknown_words_replacement_string =
                 Some (unknown_words_replacement_string self)\<rparr>)"

text \<open>
  \<open>_deserialize_tfidf_vectorizer\<close>: a vectorizer built from the configuration, whose
  \<open>_tfidf\<close> is then replaced by a fresh \<open>TfidfTransformer()\<close> carrying the snapshot's
  diagonal. \<open>len(np.array(None))\<close> raises \<open>TypeError\<close>.
\<close>

definition deserialize_tfidf_vectorizer ::
    "env \<Rightarrow> vectorizer_dict \<Rightarrow> string \<Rightarrow> featurizer_config \<Rightarrow> error + tfidf_vectorizer" where
  "deserialize_tfidf_vectorizer e vd lang featurizer_config =
     (let vectorizer = get_tfidf_vectorizer e lang (config_to_dict featurizer_config);
          tfidf_transformer = TfidfTransformer
      in case vd_vocab vd of
           None \<Rightarrow> Inl KeyError
         | Some None \<Rightarrow> Inr (vectorizer\<lparr>tfidf := tfidf_transformer\<rparr>)
         | Some (Some vocab) \<Rightarrow>
             (case vd_idf_diag vd of
                None \<Rightarrow> Inl KeyError
              | Some None \<Rightarrow> Inl TypeError
              | Some (Some idf_diag_data) \<Rightarrow>
                  Inr (vectorizer\<lparr>vocabulary := Some vocab,
                                   tfidf := tfidf_transformer\<lparr>idf_diag := Some idf_diag_data\<rparr>\<rparr>)))"

definition from_dict :: "env \<Rightarrow> featurizer_dict \<Rightarrow> error + featurizer" where
  "from_dict e obj_dict =
     (case d_language_code obj_dict of
        None \<Rightarrow> Inl KeyError
      | Some lang \<Rightarrow>
     (case d_config obj_dict of
        None \<Rightarrow> Inl KeyError
      | Some config_dict \<Rightarrow>
     (let cfg = config_from_dict config_dict in
     (case d_tfidf_vectorizer obj_dict of
        None \<Rightarrow> Inl KeyError
      | Some vd \<Rightarrow>
     (case deserialize_tfidf_vectorizer e vd lang cfg of
        Inl err \<Rightarrow> Inl err
      | Inr vectorizer \<Rightarrow>
     (case d_entity_utterances_to_feature_names obj_dict of
        None \<Rightarrow> Inl KeyError
      | Some lexicon \<Rightarrow>
     (let entity_utterances_to_entity_names = map (\<lambda>(k, v). (k, set v)) lexicon in
     (case d_pvalue_threshold obj_dict of
        None \<Rightarrow> Inl KeyError
      | Some threshold \<Rightarrow>
     (case d_best_features obj_dict of
        None \<Rightarrow> Inl KeyError
      | Some best \<Rightarrow>
     (case d_unknown_words_replacement_string obj_dict of
        None \<Rightarrow> Inl KeyError
      | Some unknown \<Rightarrow>
          Inr (Featurizer_init e lang unknown cfg (Some vectorizer) best
                 (Some entity_utterances_to_entity_names) threshold)))))))))))"

text \<open>\<open>Featurizer.from_dict(self.to_dict())\<close>\<close>

definition round_trip :: "env \<Rightarrow> featurizer \<Rightarrow> error + featurizer" where
  "round_trip e self = (case to_dict self of Inl err \<Rightarrow> Inl err | Inr d \<Rightarrow> from_dict e d)"

section \<open>The preprocessed string as the specification words it\<close>

text \<open>
  The specification's description of the preprocessed representation, written
  declaratively: the separator-joined normalized-then-stemmed tokens, then the sorted
  entity features found by n-gram lookup, then the sorted word-cluster features found by
  lower-cased n-gram lookup of the raw tokens, each block only when it is not empty.
\<close>

definition spec_normalized_stemmed :: "env \<Rightarrow> string \<Rightarrow> string \<Rightarrow> string" where
  "spec_normalized_stemmed e lang t =
     (case stem e (normalize_str e t) lang of None \<Rightarrow> normalize_str e t | Some s \<Rightarrow> s)"

definition spec_entity_features :: "env \<Rightarrow> (string, string set) dict \<Rightarrow> string list \<Rightarrow> string list" where
  "spec_entity_features e lexicon tokens =
     sort (concat (map (\<lambda>g. case map_of lexicon (NGRAM g) of
                              None \<Rightarrow> []
                            | Some names \<Rightarrow> sorted_list_of_set names)
                     (get_all_ngrams e tokens)))"

definition spec_cluster_features :: "env \<Rightarrow> (string \<rightharpoonup> string) \<Rightarrow> string list \<Rightarrow> string list" where
  "spec_cluster_features e clusters raw_tokens =
     sort (List.map_filter (\<lambda>g. clusters (str_lower e (NGRAM g))) (get_all_ngrams e raw_tokens))"

definition configured_clusters :: "env \<Rightarrow> string \<Rightarrow> (string \<rightharpoonup> string) option" where
  \<comment> \<open>the cluster resource a language is configured to use, if any\<close>
  "configured_clusters e lang =
     (case CLUSTER_USED_PER_LANGUAGES e lang of
        None \<Rightarrow> None
      | Some cluster_name \<Rightarrow>
          if cluster_name = [] then None else get_word_clusters e lang cluster_name)"

definition cluster_resource_present :: "env \<Rightarrow> string \<Rightarrow> bool" where
  \<comment> \<open>a language configured with a cluster name has that cluster among its resources\<close>
  "cluster_resource_present e lang =
     (case CLUSTER_USED_PER_LANGUAGES e lang of
        None \<Rightarrow> True
      | Some cluster_name \<Rightarrow>
          cluster_name = [] \<or> get_word_clusters e lang cluster_name \<noteq> None)"

definition spec_preprocessed ::
    "env \<Rightarrow> string \<Rightarrow> (string, string set) dict \<Rightarrow> string \<Rightarrow> string" where
  "spec_preprocessed e lang lexicon query =
     (let raw_tokens = tokenize_light e query lang;
          tokens = map (spec_normalized_stemmed e lang) raw_tokens;
          entity_block = spec_entity_features e lexicon tokens;
          cluster_block = (case configured_clusters e lang of
                             None \<Rightarrow> []
                           | Some clusters \<Rightarrow> spec_cluster_features e clusters raw_tokens)
      in join (get_default_sep e lang) tokens
         @ (if entity_block = [] then [] else '' '' @ join '' '' entity_block)
         @ (if cluster_block = [] then [] else '' '' @ join '' '' cluster_block))"

section \<open>scikit-learn's \<open>TfidfVectorizer.transform\<close>\<close>

text \<open>
  The library routine behind \<open>vectorizer_transform\<close>, as scikit-learn documents it.
  \<open>CountVectorizer.transform\<close> lower-cases a document, tokenizes it with the vectorizer's
  tokenizer and counts the tokens that are in the vocabulary, in a row of
  \<open>len(vocabulary_)\<close> columns; it raises \<open>NotFittedError\<close> without a vocabulary.
  \<open>TfidfTransformer.transform\<close> then replaces each non-zero count \<open>tf\<close> by \<open>1 + ln tf\<close> when
  \<open>sublinear_tf\<close> is set, multiplies by the diagonal \<open>_idf_diag\<close> when \<open>use_idf\<close> is set
  (\<open>NotFittedError\<close> without the diagonal, \<open>ValueError\<close> when its size is not the number of
  columns) and scales each row to unit norm unless \<open>norm\<close> is \<open>None\<close> (a zero row stays).
  The first argument is Python's \<open>str.lower\<close>.
\<close>

definition count_row ::
    "(string \<Rightarrow> string) \<Rightarrow> (string \<Rightarrow> string list) \<Rightarrow> (string, nat) dict \<Rightarrow> string \<Rightarrow> real list" where
  "count_row lower tok vocab doc =
     map (\<lambda>j. real (length (filter (\<lambda>t. map_of vocab t = Some j) (tok (lower doc)))))
       [0..<length vocab]"

definition row_norm :: "norm_kind \<Rightarrow> real list \<Rightarrow> real" where
  "row_norm k row =
     (case k of
        L1 \<Rightarrow> sum_list (map abs row)
      | L2 \<Rightarrow> sqrt (sum_list (map (\<lambda>x. x * x) row)))"

definition normalize_row :: "norm_kind \<Rightarrow> real list \<Rightarrow> real list" where
  "normalize_row k row = (if row_norm k row = 0 then row else map (\<lambda>x. x / row_norm k row) row)"

definition tfidf_transformer_transform :: "tfidf_transformer \<Rightarrow> real list list \<Rightarrow> error + real list list" where
  "tfidf_transformer_transform t X =
     (let X1 = (if tt_sublinear_tf t then map (map (\<lambda>x. if x = 0 then 0 else ln x + 1)) X else X)
      in case (if tt_use_idf t
               then (case idf_diag t of
                       None \<Rightarrow> Inl NotFittedError
                     | Some idf \<Rightarrow>
                         if list_all (\<lambda>row. length row = length idf) X1
                         then Inr (map (\<lambda>row. map2 (*) row idf) X1)
                         else Inl ValueError)
               else Inr X1)
         of
           Inl err \<Rightarrow> Inl err
         | Inr X2 \<Rightarrow> Inr (case tt_norm t of None \<Rightarrow> X2 | Some k \<Rightarrow> map (normalize_row k) X2))"

definition sklearn_transform ::
    "(string \<Rightarrow> string) \<Rightarrow> tfidf_vectorizer \<Rightarrow> string list \<Rightarrow> error + real list list" where
  "sklearn_transform lower v docs =
     (case vocabulary v of
        None \<Rightarrow> Inl NotFittedError
      | Some vocab \<Rightarrow>
          tfidf_transformer_transform (tfidf v) (map (count_row lower (tokenizer v) vocab) docs))"

section \<open>A concrete environment\<close>

text \<open>
  Collaborators to evaluate the model with: a tokenizer that splits at spaces, ASCII
  lower-casing as normalization, an English stemmer that drops a final \<open>s\<close> (no stemmer
  for any other language), all contiguous n-grams joined by a space, and the transform of
  the previous section. Fitting and the chi-squared test are not evaluated: in this
  environment they raise.
\<close>

fun split_words :: "string \<Rightarrow> string \<Rightarrow> string list" where
  "split_words cur [] = (if cur = [] then [] else [cur])"
| "split_words cur (c # cs) =
     (if c = CHR '' ''
      then (if cur = [] then split_words [] cs else cur # split_words [] cs)
      else split_words (cur @ [c]) cs)"

definition lower_char :: "char \<Rightarrow> char" where
  "lower_char c =
     (case map_of (zip ''ABCDEFGHIJKLMNOPQRSTUVWXYZ'' ''abcdefghijklmnopqrstuvwxyz'') c of
        None \<Rightarrow> c
      | Some l \<Rightarrow> l)"

definition ascii_lower :: "string \<Rightarrow> string" where
  "ascii_lower text = map lower_char text"

definition drop_final_s :: "string \<Rightarrow> string" where
  "drop_final_s w = (if 1 < length w \<and> last w = CHR ''s'' then butlast w else w)"

definition contiguous_ngrams :: "string list \<Rightarrow> ngram list" where
  "contiguous_ngrams tokens =
     concat (map (\<lambda>start. map (\<lambda>stop. \<lparr>NGRAM = join '' '' (take (stop - start) (drop start tokens))\<rparr>)
                            [Suc start..<Suc (length tokens)])
               [0..<length tokens])"

definition test_env :: env where
  "test_env =
     \<lparr>tokenize_light = (\<lambda>text lang. split_words [] text),
      normalize_str = ascii_lower,
      stem = (\<lambda>text lang. if lang = ''en'' then Some (drop_final_s text) else None),
      str_lower = ascii_lower,
      get_stop_words = (\<lambda>lang. {''the'', ''a'', ''to''}),
      get_word_clusters = (\<lambda>lang. Map.empty),
      CLUSTER_USED_PER_LANGUAGES = Map.empty,
      get_all_ngrams = contiguous_ngrams,
      get_default_sep = (\<lambda>lang. '' ''),
      is_builtin_entity = (\<lambda>name. take 6 name = ''snips/''),
      vectorizer_fit_transform = (\<lambda>v docs. Inl ValueError),
      vectorizer_transform = sklearn_transform ascii_lower,
      chi2 = (\<lambda>X y. Inl ValueError)\<rparr>"

text \<open>The same with a cluster resource configured for English.\<close>

definition cluster_env :: env where
  "cluster_env =
     test_env\<lparr>CLUSTER_USED_PER_LANGUAGES := [''en'' \<mapsto> ''brown_clusters''],
              get_word_clusters :=
                (\<lambda>lang. [''brown_clusters'' \<mapsto> [''offices'' \<mapsto> ''1011'', ''go'' \<mapsto> ''0100'']])\<rparr>"

definition office_dataset :: dataset where
  "office_dataset =
     \<lparr>ENTITIES = [(''the_office'', \<lparr>UTTERANCES = [''The Offices'', ''unknownword'']\<rparr>),
                  (''snips/number'', \<lparr>UTTERANCES = [''two'']\<rparr>)]\<rparr>"

text \<open>
  A featurizer as the constructor leaves it, with the sentinel \<open>unknownword\<close>, and one
  that was fitted with \<open>sublinear_tf=True\<close> on the queries \<open>turn turn lights\<close> and
  \<open>weather\<close> with two labels and a dataset without entities: three vocabulary tokens,
  each in one of the two documents, so each with the smoothed weight \<open>ln (3/2) + 1\<close>;
  selected are the columns of \<open>turn\<close> and \<open>weather\<close>.
\<close>

definition fresh_featurizer :: featurizer where
  "fresh_featurizer =
     Featurizer_init test_env ''en'' (Some ''unknownword'') FeaturizerConfig None None None (2 / 5)"

definition sublinear_featurizer :: featurizer where
  "sublinear_featurizer =
     (let self = Featurizer_init test_env ''en'' (Some ''unknownword'') \<lparr>sublinear_tf = True\<rparr>
                   None None None (2 / 5);
          v = tfidf_vectorizer self
      in self\<lparr>tfidf_vectorizer :=
                 v\<lparr>vocabulary := Some [(''light'', 0), (''turn'', 1), (''weather'', 2)],
                   tfidf := (tfidf v)\<lparr>idf_diag :=
                              Some [ln (3 / 2) + 1, ln (3 / 2) + 1, ln (3 / 2) + 1]\<rparr>\<rparr>,
               best_features := Some [1, 2],
               entity_utterances_to_feature_names := Some []\<rparr>)"

text \<open>A snapshot with every key, two vocabulary tokens and one weight.\<close>

definition mismatched_snapshot :: featurizer_dict where
  "mismatched_snapshot =
     \<lparr>d_language_code = Some ''en'',
      d_tfidf_vectorizer =
        Some \<lparr>vd_vocab = Some (Some [(''light'', 0), (''turn'', 1)]), vd_idf_diag = Some (Some [1])\<rparr>,
      d_best_features = Some (Some [0, 1]),
      d_pvalue_threshold = Some (2 / 5),
      d_entity_utterances_to_feature_names = Some [],
      d_config = Some \<lparr>sublinear_tf = False\<rparr>,
      d_unknown_words_replacement_string = Some None\<rparr>"

text \<open>The featurizer \<open>from_dict\<close> makes of it.\<close>

definition mismatched_featurizer :: featurizer where
  "mismatched_featurizer =
     Featurizer_init test_env ''en'' None \<lparr>sublinear_tf = False\<rparr>
       (Some \<lparr>tokenizer = (\<lambda>x. tokenize_light test_env x ''en''),
              vocabulary = Some [(''light'', 0), (''turn'', 1)],
              tfidf = TfidfTransformer\<lparr>idf_diag := Some [1]\<rparr>\<rparr>)
       (Some [0, 1]) (Some []) (2 / 5)"

text \<open>
  The keys \<open>from_dict\<close> reads: the seven of the snapshot, \<open>vocab\<close> of the vectorizer's
  dictionary, and \<open>idf_diag\<close> when the vocabulary is not null.
\<close>

definition missing_required_key :: "featurizer_dict \<Rightarrow> bool" where
  "missing_required_key d =
     (d_language_code d = None \<or> d_config d = None
      \<or> d_entity_utterances_to_feature_names d = None \<or> d_pvalue_threshold d = None
      \<or> d_best_features d = None \<or> d_unknown_words_replacement_string d = None
      \<or> (case d_tfidf_vectorizer d of
            None \<Rightarrow> True
          | Some vd \<Rightarrow>
              (case vd_vocab vd of
                 None \<Rightarrow> True
               | Some None \<Rightarrow> False
               | Some (Some vocab) \<Rightarrow> vd_idf_diag vd = None)))"

text \<open>
  What \<open>from_dict\<close> makes of the snapshot of \<open>sublinear_featurizer\<close>: the same featurizer
  but for the transformer, which is a \<open>TfidfTransformer()\<close> with the snapshot's diagonal.
\<close>

definition restored_featurizer :: featurizer where
  "restored_featurizer =
     sublinear_featurizer\<lparr>tfidf_vectorizer :=
       (tfidf_vectorizer sublinear_featurizer)\<lparr>tfidf :=
          TfidfTransformer\<lparr>idf_diag := Some [ln (3 / 2) + 1, ln (3 / 2) + 1, ln (3 / 2) + 1]\<rparr>\<rparr>\<rparr>"

section \<open>The selection of lines 75 to 89\<close>

lemma array_min_eq:
  assumes "pval \<noteq> []"
  shows "array_min pval = Inr (Min (set pval))"
proof (cases pval)
  case Nil
  then show ?thesis using assms by simp
next
  case (Cons x xs)
  show ?thesis unfolding Cons using Min.set_eq_fold [of x xs] by simp
qed

lemma fallback_select_eq:
  "pval \<noteq> [] \<Longrightarrow>
   fallback_select pval es = Inr (map fst (filter (\<lambda>(i, v). v = Min (set pval)) es))"
  by (induction es) (auto simp: array_min_eq)

lemma enumerate_filter_fst:
  "map fst (filter (\<lambda>(i, v). P v) (enumerate n xs)) =
   filter (\<lambda>i. P (xs ! (i - n))) [n..<n + length xs]"
proof (induction xs arbitrary: n)
  case Nil
  then show ?case by simp
next
  case (Cons x xs)
  have tl: "filter (\<lambda>i. P ((x # xs) ! (i - n))) [Suc n..<Suc n + length xs] =
            filter (\<lambda>i. P (xs ! (i - Suc n))) [Suc n..<Suc n + length xs]"
  proof (rule filter_cong)
    fix i assume "i \<in> set [Suc n..<Suc n + length xs]"
    then have "i - n = Suc (i - Suc n)" by auto
    then show "P ((x # xs) ! (i - n)) = P (xs ! (i - Suc n))" by simp
  qed simp
  have "[n..<n + Suc (length xs)] = n # [Suc n..<n + Suc (length xs)]"
    by (rule upt_conv_Cons) simp
  then have "[n..<n + length (x # xs)] = n # [Suc n..<Suc n + length xs]"
    by simp
  then show ?case using Cons.IH [of "Suc n"] tl by simp
qed

lemma select_best_features_eq:
  "select_best_features pval threshold =
     Inr (if filter (\<lambda>i. pval ! i < threshold) [0..<length pval] = []
          then filter (\<lambda>i. pval ! i = Min (set pval)) [0..<length pval]
          else filter (\<lambda>i. pval ! i < threshold) [0..<length pval])"
proof (cases "pval = []")
  case True
  then show ?thesis by (simp add: select_best_features_def)
next
  case False
  show ?thesis
    using enumerate_filter_fst [of "\<lambda>v. v < threshold" 0 pval]
      enumerate_filter_fst [of "\<lambda>v. v = Min (set pval)" 0 pval]
    by (simp add: select_best_features_def Let_def fallback_select_eq [OF False])
qed

lemma update_fresh: "k \<notin> fst ` set ps \<Longrightarrow> AList.update k v ps = ps @ [(k, v)]"
  by (induction ps) auto

lemma build_feature_names_ok:
  "distinct best \<Longrightarrow> set best \<inter> fst ` set acc = {} \<Longrightarrow>
   list_all (\<lambda>i. map_of fidx i \<noteq> None \<and> i < length pval) best \<Longrightarrow>
   build_feature_names fidx pval best acc =
     Inr (acc @ map (\<lambda>i. (i, \<lparr>fn_word = the (map_of fidx i), fn_pval = pval ! i\<rparr>)) best)"
proof (induction best arbitrary: acc)
  case Nil
  then show ?case by simp
next
  case (Cons i best)
  from Cons.prems obtain w where w: "map_of fidx i = Some w" and lt: "i < length pval"
    by auto
  have fresh: "i \<notin> fst ` set acc" using Cons.prems by auto
  have d: "distinct best" using Cons.prems by simp
  have disj: "set best \<inter> fst ` set (acc @ [(i, \<lparr>fn_word = w, fn_pval = pval ! i\<rparr>)]) = {}"
    using Cons.prems by auto
  have rest: "list_all (\<lambda>i. map_of fidx i \<noteq> None \<and> i < length pval) best"
    using Cons.prems by simp
  show ?case
    using Cons.IH [OF d disj rest] w lt by (simp add: update_fresh [OF fresh])
qed

lemma build_feature_names_Inr:
  "build_feature_names fidx pval best acc = Inr names \<Longrightarrow>
   list_all (\<lambda>i. map_of fidx i \<noteq> None \<and> i < length pval) best"
  by (induction best arbitrary: acc) (auto split: option.splits if_splits)

lemma list_remove_eq: "x \<in> set xs \<Longrightarrow> list_remove x xs = Inr (remove1 x xs)"
  by (induction xs) auto

lemma demote_stop_words_eq:
  "distinct cur \<Longrightarrow> distinct items \<Longrightarrow> set items \<subseteq> set cur \<Longrightarrow>
   demote_stop_words stop threshold (map (\<lambda>i. (i, f i)) items) cur =
     Inr (filter (\<lambda>i. i \<notin> set items \<or> \<not> (fn_word (f i) \<in> stop \<and> fn_pval (f i) > threshold / 2)) cur)"
proof (induction items arbitrary: cur)
  case Nil
  then show ?case by simp
next
  case (Cons i items)
  let ?bad = "\<lambda>j. fn_word (f j) \<in> stop \<and> fn_pval (f j) > threshold / 2"
  show ?case
  proof (cases "?bad i")
    case True
    have mem: "i \<in> set cur" using Cons.prems by simp
    let ?cur' = "remove1 i cur"
    have d': "distinct ?cur'" using Cons.prems by simp
    have sub: "set items \<subseteq> set ?cur'" using Cons.prems by auto
    have di: "distinct items" using Cons.prems by simp
    have r: "?cur' = filter (\<lambda>j. j \<noteq> i) cur"
      using Cons.prems(1) by (simp add: distinct_remove1_removeAll removeAll_filter_not_eq) (metis)
    have "filter (\<lambda>j. j \<notin> set items \<or> \<not> ?bad j) ?cur' =
          filter (\<lambda>j. j \<notin> set (i # items) \<or> \<not> ?bad j) cur"
      unfolding r using True by (auto intro: filter_cong)
    then show ?thesis
      using Cons.IH [OF d' di sub] True by (simp add: list_remove_eq [OF mem])
  next
    case False
    have di: "distinct items" and sub: "set items \<subseteq> set cur" using Cons.prems by auto
    have "filter (\<lambda>j. j \<notin> set items \<or> \<not> ?bad j) cur =
          filter (\<lambda>j. j \<notin> set (i # items) \<or> \<not> ?bad j) cur"
      using False by (auto intro: filter_cong)
    then show ?thesis
      using Cons.IH [OF Cons.prems(1) di sub] False by auto
  qed
qed


lemma select_best_features_distinct:
  "select_best_features pval threshold = Inr best \<Longrightarrow> distinct best"
  by (auto simp: select_best_features_eq split: if_splits)

lemma select_best_features_below:
  assumes "list_ex (\<lambda>p. p < threshold) pval"
  shows "select_best_features pval threshold =
           Inr (filter (\<lambda>i. pval ! i < threshold) [0..<length pval])"
proof -
  from assms obtain i where "i < length pval" "pval ! i < threshold"
    by (auto simp: list_ex_iff in_set_conv_nth)
  then have "filter (\<lambda>i. pval ! i < threshold) [0..<length pval] \<noteq> []"
    by (auto simp: filter_empty_conv)
  then show ?thesis by (simp add: select_best_features_eq)
qed

lemma final_selection_eq:
  assumes sel: "select_best_features pval threshold = Inr best"
    and ok: "list_all (\<lambda>i. map_of fidx i \<noteq> None \<and> i < length pval) best"
  shows "final_selection fidx stop pval threshold =
           Inr (filter (\<lambda>i. \<not> (the (map_of fidx i) \<in> stop \<and> threshold / 2 < pval ! i)) best)"
proof -
  let ?f = "\<lambda>i. \<lparr>fn_word = the (map_of fidx i), fn_pval = pval ! i\<rparr>"
  have d: "distinct best" using sel by (rule select_best_features_distinct)
  have b: "build_feature_names fidx pval best [] = Inr (map (\<lambda>i. (i, ?f i)) best)"
    using build_feature_names_ok [OF d _ ok, of "[]"] by simp
  have "demote_stop_words stop threshold (map (\<lambda>i. (i, ?f i)) best) best =
        Inr (filter (\<lambda>i. i \<notin> set best \<or>
               \<not> (fn_word (?f i) \<in> stop \<and> threshold / 2 < fn_pval (?f i))) best)"
    by (rule demote_stop_words_eq [OF d d]) simp
  also have "filter (\<lambda>i. i \<notin> set best \<or>
               \<not> (fn_word (?f i) \<in> stop \<and> threshold / 2 < fn_pval (?f i))) best =
             filter (\<lambda>i. \<not> (the (map_of fidx i) \<in> stop \<and> threshold / 2 < pval ! i)) best"
    by (rule filter_cong) auto
  finally show ?thesis using sel b by (simp add: final_selection_def)
qed

lemma fit_selection:
  assumes "fit e self ds queries y = (self', Inr ReturnsSelf)"
  shows "\<exists>preprocessed vectorizer X vocab stat pval best.
           vectorizer_fit_transform e (tfidf_vectorizer self) preprocessed = Inr (vectorizer, X)
           \<and> vocabulary vectorizer = Some vocab
           \<and> chi2 e X y = Inr (stat, pval)
           \<and> final_selection (features_index vocab) (get_stop_words e (language self)) pval
                 (pvalue_threshold self) = Inr best
           \<and> tfidf_vectorizer self' = vectorizer
           \<and> best_features self' = Some best"
proof -
  from assms obtain preprocessed vectorizer X vocab stat pval best0 names best where
    f: "vectorizer_fit_transform e (tfidf_vectorizer self) preprocessed = Inr (vectorizer, X)"
    and v: "vocabulary vectorizer = Some vocab"
    and c: "chi2 e X y = Inr (stat, pval)"
    and s: "select_best_features pval (pvalue_threshold self) = Inr best0"
    and b: "build_feature_names (features_index vocab) pval best0 [] = Inr names"
    and d: "demote_stop_words (get_stop_words e (language self)) (pvalue_threshold self)
              names best0 = Inr best"
    and r: "tfidf_vectorizer self' = vectorizer" "best_features self' = Some best"
    by (auto simp: fit_def Let_def split: if_splits sum.splits option.splits prod.splits)
  have "final_selection (features_index vocab) (get_stop_words e (language self)) pval
          (pvalue_threshold self) = Inr best"
    by (simp add: final_selection_def s b d)
  then show ?thesis using f v c r by blast
qed

text \<open>
  C2. When no p-value is strictly below the threshold, lines 76 to 80 do not raise and select,
  each once, exactly the indices whose p-value is the least of the vector: every index
  that ties for the minimum is in.
\<close>

theorem fallback_selects_minimum:
  assumes "list_all (\<lambda>p. \<not> p < threshold) pval"
  shows "\<exists>best. select_best_features pval threshold = Inr best
           \<and> distinct best
           \<and> set best = {i. i < length pval \<and> (\<forall>j<length pval. pval ! i \<le> pval ! j)}"
proof -
  let ?best = "filter (\<lambda>i. pval ! i = Min (set pval)) [0..<length pval]"
  have none: "filter (\<lambda>i. pval ! i < threshold) [0..<length pval] = []"
    using assms by (auto simp: filter_empty_conv list_all_iff)
  have sel: "select_best_features pval threshold = Inr ?best"
    by (simp add: select_best_features_eq none)
  have "set ?best = {i. i < length pval \<and> (\<forall>j<length pval. pval ! i \<le> pval ! j)}"
  proof (intro set_eqI iffI)
    fix i assume "i \<in> set ?best"
    then have i: "i < length pval" and m: "pval ! i = Min (set pval)" by auto
    have "\<forall>j<length pval. pval ! i \<le> pval ! j"
      using m by (auto intro: Min_le)
    then show "i \<in> {i. i < length pval \<and> (\<forall>j<length pval. pval ! i \<le> pval ! j)}"
      using i by simp
  next
    fix i assume "i \<in> {i. i < length pval \<and> (\<forall>j<length pval. pval ! i \<le> pval ! j)}"
    then have i: "i < length pval" and le: "\<forall>j<length pval. pval ! i \<le> pval ! j" by auto
    have "pval ! i \<in> set pval" using i by simp
    moreover have "\<forall>p\<in>set pval. pval ! i \<le> p" using le by (auto simp: in_set_conv_nth)
    ultimately have "Min (set pval) = pval ! i"
      by (intro Min_eqI) auto
    then show "i \<in> set ?best" using i by simp
  qed
  then show ?thesis using sel by auto
qed

theorem fallback_selects_minimum_witness:
  "list_all (\<lambda>p. \<not> p < 2 / 5) [1 / 2, 7 / 10, 1 / 2 :: real]
   \<and> select_best_features [1 / 2, 7 / 10, 1 / 2] (2 / 5) = Inr [0, 2]
   \<and> set [0, 2 :: nat] = {i. i < length [1 / 2, 7 / 10, 1 / 2 :: real]
         \<and> (\<forall>j<length [1 / 2, 7 / 10, 1 / 2 :: real].
               [1 / 2, 7 / 10, 1 / 2 :: real] ! i \<le> [1 / 2, 7 / 10, 1 / 2] ! j)}"
proof -
  have h: "list_all (\<lambda>p. \<not> p < 2 / 5) [1 / 2, 7 / 10, 1 / 2 :: real]" by simp
  have v: "select_best_features [1 / 2, 7 / 10, 1 / 2] (2 / 5) = Inr [0, 2]"
    by (simp add: select_best_features_def enumerate_eq_zip upt_rec [of _ "Suc _"])
  show ?thesis
    using h v fallback_selects_minimum [OF h] by auto
qed

text \<open>
  C3. Of the indices selected by lines 76 to 80, the stop-word pass (lines 82 to 89) removes
  exactly those whose vocabulary token is a stop word with a p-value strictly above half
  the threshold. A stop word at or below half the threshold stays, and so does every
  index whose token is no stop word; nothing is added.
\<close>

theorem stop_word_demotion:
  assumes sel: "select_best_features pval threshold = Inr best"
    and names: "build_feature_names features_idx pval best [] = Inr feature_names"
  shows "\<exists>final. demote_stop_words stop_words threshold feature_names best = Inr final
           \<and> set final \<subseteq> set best
           \<and> (\<forall>i\<in>set best. \<exists>w. map_of features_idx i = Some w
                  \<and> (i \<in> set final) = (\<not> (w \<in> stop_words \<and> threshold / 2 < pval ! i)))"
proof -
  let ?f = "\<lambda>i. \<lparr>fn_word = the (map_of features_idx i), fn_pval = pval ! i\<rparr>"
  let ?keep = "\<lambda>i. \<not> (the (map_of features_idx i) \<in> stop_words \<and> threshold / 2 < pval ! i)"
  have d: "distinct best" using sel by (rule select_best_features_distinct)
  have ok: "list_all (\<lambda>i. map_of features_idx i \<noteq> None \<and> i < length pval) best"
    using names by (rule build_feature_names_Inr)
  have "build_feature_names features_idx pval best [] = Inr (map (\<lambda>i. (i, ?f i)) best)"
    using build_feature_names_ok [OF d _ ok, of "[]"] by simp
  then have fn: "feature_names = map (\<lambda>i. (i, ?f i)) best" using names by simp
  have "demote_stop_words stop_words threshold (map (\<lambda>i. (i, ?f i)) best) best =
        Inr (filter (\<lambda>i. i \<notin> set best \<or>
               \<not> (fn_word (?f i) \<in> stop_words \<and> threshold / 2 < fn_pval (?f i))) best)"
    by (rule demote_stop_words_eq [OF d d]) simp
  also have "filter (\<lambda>i. i \<notin> set best \<or>
               \<not> (fn_word (?f i) \<in> stop_words \<and> threshold / 2 < fn_pval (?f i))) best =
             filter ?keep best"
    by (rule filter_cong) auto
  finally have dem: "demote_stop_words stop_words threshold feature_names best =
                     Inr (filter ?keep best)"
    unfolding fn .
  have "\<forall>i\<in>set best. \<exists>w. map_of features_idx i = Some w
          \<and> (i \<in> set (filter ?keep best)) = (\<not> (w \<in> stop_words \<and> threshold / 2 < pval ! i))"
    using ok by (auto simp: list_all_iff)
  then show ?thesis using dem by auto
qed

theorem stop_word_demotion_witness:
  "select_best_features [1 / 4, 3 / 20, 3 / 10, 9 / 10] (2 / 5) = Inr [0, 1, 2]
   \<and> build_feature_names
       (features_index [(''the'', 0), (''a'', 1), (''office'', 2), (''go'', 3)])
       [1 / 4, 3 / 20, 3 / 10, 9 / 10] [0, 1, 2] [] =
     Inr [(0, \<lparr>fn_word = ''the'', fn_pval = 1 / 4\<rparr>),
          (1, \<lparr>fn_word = ''a'', fn_pval = 3 / 20\<rparr>),
          (2, \<lparr>fn_word = ''office'', fn_pval = 3 / 10\<rparr>)]
   \<and> demote_stop_words {''the'', ''a'', ''to''} (2 / 5)
       [(0, \<lparr>fn_word = ''the'', fn_pval = 1 / 4\<rparr>),
        (1, \<lparr>fn_word = ''a'', fn_pval = 3 / 20\<rparr>),
        (2, \<lparr>fn_word = ''office'', fn_pval = 3 / 10\<rparr>)] [0, 1, 2] = Inr [1, 2]"
proof -
  have sel: "select_best_features [1 / 4, 3 / 20, 3 / 10, 9 / 10] (2 / 5) = Inr [0, 1, 2]"
    by (simp add: select_best_features_def enumerate_eq_zip upt_rec [of _ "Suc _"])
  have names: "build_feature_names
       (features_index [(''the'', 0), (''a'', 1), (''office'', 2), (''go'', 3)])
       [1 / 4, 3 / 20, 3 / 10, 9 / 10] [0, 1, 2] [] =
     Inr [(0, \<lparr>fn_word = ''the'', fn_pval = 1 / 4\<rparr>),
          (1, \<lparr>fn_word = ''a'', fn_pval = 3 / 20\<rparr>),
          (2, \<lparr>fn_word = ''office'', fn_pval = 3 / 10\<rparr>)]"
    by (simp add: features_index_def)
  show ?thesis
    using sel names stop_word_demotion [OF sel names, of "{''the'', ''a'', ''to''}"]
    by simp
qed

text \<open>
  C8. For a fixed p-value vector, vocabulary and stop-word set, and thresholds \<open>t2 < t1\<close>
  with some p-value strictly below \<open>t2\<close>: when the selection with \<open>t1\<close> goes through, so
  does the selection with \<open>t2\<close>, and it selects a subset, hence no more indices.
\<close>

theorem selection_monotone:
  assumes lt: "t2 < t1"
    and below: "list_ex (\<lambda>p. p < t2) pval"
    and s1: "final_selection features_idx stop_words pval t1 = Inr s1"
  shows "\<exists>s2. final_selection features_idx stop_words pval t2 = Inr s2
           \<and> set s2 \<subseteq> set s1 \<and> length s2 \<le> length s1"
proof -
  let ?n = "length pval"
  let ?b1 = "filter (\<lambda>i. pval ! i < t1) [0..<?n]"
  let ?b2 = "filter (\<lambda>i. pval ! i < t2) [0..<?n]"
  let ?keep = "\<lambda>t i. \<not> (the (map_of features_idx i) \<in> stop_words \<and> t / 2 < pval ! i)"
  have below1: "list_ex (\<lambda>p. p < t1) pval"
    using below lt by (auto simp: list_ex_iff intro: less_trans)
  have sel1: "select_best_features pval t1 = Inr ?b1"
    using below1 by (rule select_best_features_below)
  have sel2: "select_best_features pval t2 = Inr ?b2"
    using below by (rule select_best_features_below)
  obtain names1 where "build_feature_names features_idx pval ?b1 [] = Inr names1"
    using s1 sel1 by (auto simp: final_selection_def split: sum.splits)
  then have ok1: "list_all (\<lambda>i. map_of features_idx i \<noteq> None \<and> i < length pval) ?b1"
    by (rule build_feature_names_Inr)
  have ok2: "list_all (\<lambda>i. map_of features_idx i \<noteq> None \<and> i < length pval) ?b2"
    using ok1 lt by (auto simp: list_all_iff)
  have f1: "final_selection features_idx stop_words pval t1 = Inr (filter (?keep t1) ?b1)"
    using sel1 ok1 by (rule final_selection_eq)
  have f2: "final_selection features_idx stop_words pval t2 = Inr (filter (?keep t2) ?b2)"
    using sel2 ok2 by (rule final_selection_eq)
  have e1: "s1 = filter (\<lambda>i. pval ! i < t1 \<and> ?keep t1 i) [0..<?n]"
    using f1 s1 by (simp add: conj_commute)
  let ?s2 = "filter (\<lambda>i. pval ! i < t2 \<and> ?keep t2 i) [0..<?n]"
  have e2: "filter (?keep t2) ?b2 = ?s2" by (simp add: conj_commute)
  have imp: "\<And>i. pval ! i < t2 \<and> ?keep t2 i \<Longrightarrow> pval ! i < t1 \<and> ?keep t1 i"
    using lt by auto
  have "?s2 = filter (\<lambda>i. pval ! i < t2 \<and> ?keep t2 i) s1"
    unfolding e1 using imp by (auto intro: filter_cong)
  then have "set ?s2 \<subseteq> set s1" and "length ?s2 \<le> length s1"
    by (metis filter_is_subset, metis length_filter_le)
  then show ?thesis using f2 e2 by auto
qed

theorem selection_monotone_witness:
  "(2 / 5 :: real) < 7 / 10
   \<and> list_ex (\<lambda>p. p < 2 / 5) [1 / 4, 3 / 20, 3 / 10, 9 / 10 :: real]
   \<and> final_selection (features_index [(''the'', 0), (''a'', 1), (''office'', 2), (''go'', 3)])
       {''the'', ''a'', ''to''} [1 / 4, 3 / 20, 3 / 10, 9 / 10] (7 / 10) = Inr [0, 1, 2]
   \<and> final_selection (features_index [(''the'', 0), (''a'', 1), (''office'', 2), (''go'', 3)])
       {''the'', ''a'', ''to''} [1 / 4, 3 / 20, 3 / 10, 9 / 10] (2 / 5) = Inr [1, 2]"
proof -
  have lt: "(2 / 5 :: real) < 7 / 10" by simp
  have below: "list_ex (\<lambda>p. p < 2 / 5) [1 / 4, 3 / 20, 3 / 10, 9 / 10 :: real]" by simp
  have s1: "final_selection (features_index [(''the'', 0), (''a'', 1), (''office'', 2), (''go'', 3)])
       {''the'', ''a'', ''to''} [1 / 4, 3 / 20, 3 / 10, 9 / 10] (7 / 10) = Inr [0, 1, 2]"
    by (simp add: final_selection_def select_best_features_def enumerate_eq_zip
          upt_rec [of _ "Suc _"] features_index_def)
  have s2: "final_selection (features_index [(''the'', 0), (''a'', 1), (''office'', 2), (''go'', 3)])
       {''the'', ''a'', ''to''} [1 / 4, 3 / 20, 3 / 10, 9 / 10] (2 / 5) = Inr [1, 2]"
    by (simp add: final_selection_def select_best_features_def enumerate_eq_zip
          upt_rec [of _ "Suc _"] features_index_def)
  show ?thesis
    using lt below s1 s2 selection_monotone [OF lt below s1] by simp
qed

section \<open>\<open>fit\<close>: the lexicon and the empty corpus\<close>

lemma office_lexicon_unknown:
  "fit_entity_lexicon test_env ''en'' (Some ''unknownword'') office_dataset =
     [(''the office'', {''entityfeaturethe_office''})]"
  by (simp add: fit_entity_lexicon_def get_utterances_to_features_names_def office_dataset_def
        test_env_def entity_name_to_feature_def normalize_stem_def ascii_lower_def lower_char_def
        drop_final_s_def AList.delete_eq)

lemma office_lexicon_none:
  "fit_entity_lexicon test_env ''en'' None office_dataset =
     [(''the office'', {''entityfeaturethe_office''}), (''unknownword'', {''entityfeaturethe_office''})]"
  by (simp add: fit_entity_lexicon_def get_utterances_to_features_names_def office_dataset_def
        test_env_def entity_name_to_feature_def normalize_stem_def ascii_lower_def lower_char_def
        drop_final_s_def AList.delete_eq)

lemma fit_lexicon:
  "entity_utterances_to_feature_names (fst (fit e self ds queries y)) =
     Some (fit_entity_lexicon e (language self) (unknown_words_replacement_string self) ds)"
  by (simp add: fit_def Let_def split: sum.splits option.splits prod.splits)

lemma fit_entity_lexicon_no_unknown:
  "u \<notin> fst ` set (fit_entity_lexicon e lang (Some u) ds)"
  by (auto simp: fit_entity_lexicon_def Let_def AList.delete_eq map_of_eq_None_iff)

lemma fit_empty:
  assumes "list_all (\<lambda>q. concat (tokenize_light e q (language self)) = []) queries"
  shows "fit e self ds queries y =
           (self\<lparr>entity_utterances_to_feature_names :=
                   Some (fit_entity_lexicon e (language self)
                           (unknown_words_replacement_string self) ds)\<rparr>,
            Inr ReturnsNone)"
  using assms by (simp add: fit_def Let_def)

lemma fresh_language: "language fresh_featurizer = ''en''"
  by (simp add: fresh_featurizer_def Featurizer_init_def)

lemma fresh_unknown: "unknown_words_replacement_string fresh_featurizer = Some ''unknownword''"
  by (simp add: fresh_featurizer_def Featurizer_init_def)

lemma blank_queries:
  "list_all (\<lambda>q. concat (tokenize_light test_env q ''en'') = []) ['''', ''   '']"
  by (simp add: test_env_def)

text \<open>
  C6. With a sentinel \<open>u\<close> configured, the lexicon that \<open>fit\<close> stores, whatever \<open>fit\<close> then
  returns or raises, has no key \<open>u\<close>: looking \<open>u\<close> up finds nothing, and an n-gram equal
  to \<open>u\<close> contributes no entity feature.
\<close>

theorem unknown_sentinel_excluded:
  assumes "unknown_words_replacement_string self = Some u"
  shows "\<exists>lexicon. entity_utterances_to_feature_names (fst (fit e self ds queries y)) = Some lexicon
           \<and> u \<notin> fst ` set lexicon
           \<and> map_of lexicon u = None
           \<and> entities_loop (Some lexicon) [\<lparr>NGRAM = u\<rparr>] [] = Inr []"
proof -
  let ?lexicon = "fit_entity_lexicon e (language self) (Some u) ds"
  have l: "entity_utterances_to_feature_names (fst (fit e self ds queries y)) = Some ?lexicon"
    using assms by (simp add: fit_lexicon)
  have k: "u \<notin> fst ` set ?lexicon" by (rule fit_entity_lexicon_no_unknown)
  then have m: "map_of ?lexicon u = None" by (simp add: map_of_eq_None_iff)
  then have "entities_loop (Some ?lexicon) [\<lparr>NGRAM = u\<rparr>] [] = Inr []" by simp
  then show ?thesis using l k m by blast
qed

theorem unknown_sentinel_excluded_witness:
  "unknown_words_replacement_string fresh_featurizer = Some ''unknownword''
   \<and> entity_utterances_to_feature_names
       (fst (fit test_env fresh_featurizer office_dataset [''go to the offices''] [0])) =
     Some [(''the office'', {''entityfeaturethe_office''})]
   \<and> map_of (fit_entity_lexicon test_env ''en'' None office_dataset) ''unknownword'' =
     Some {''entityfeaturethe_office''}"
proof -
  have "\<exists>lexicon. entity_utterances_to_feature_names
          (fst (fit test_env fresh_featurizer office_dataset [''go to the offices''] [0])) = Some lexicon
        \<and> ''unknownword'' \<notin> fst ` set lexicon
        \<and> map_of lexicon ''unknownword'' = None
        \<and> entities_loop (Some lexicon) [\<lparr>NGRAM = ''unknownword''\<rparr>] [] = Inr []"
    using fresh_unknown by (rule unknown_sentinel_excluded)
  then show ?thesis
    by (simp add: fit_lexicon fresh_language fresh_unknown office_lexicon_unknown office_lexicon_none)
qed

text \<open>
  C4. When every query tokenizes to an empty token join, \<open>fit\<close> returns \<open>None\<close> (it neither
  raises nor returns \<open>self\<close>) and does not touch the vectorizer: no vocabulary is built, and
  a vectorizer that was untrained is left untrained.
\<close>

theorem empty_corpus_short_circuit:
  assumes "list_all (\<lambda>q. concat (tokenize_light e q (language self)) = []) queries"
  shows "snd (fit e self ds queries y) = Inr ReturnsNone
         \<and> tfidf_vectorizer (fst (fit e self ds queries y)) = tfidf_vectorizer self
         \<and> (vocabulary (tfidf_vectorizer self) = None
              \<longrightarrow> vocabulary (tfidf_vectorizer (fst (fit e self ds queries y))) = None)"
  by (simp add: fit_empty [OF assms])

theorem empty_corpus_short_circuit_witness:
  "list_all (\<lambda>q. concat (tokenize_light test_env q (language fresh_featurizer)) = []) ['''', ''   '']
   \<and> vocabulary (tfidf_vectorizer fresh_featurizer) = None
   \<and> snd (fit test_env fresh_featurizer office_dataset ['''', ''   ''] [0, 1]) = Inr ReturnsNone
   \<and> vocabulary (tfidf_vectorizer (fst (fit test_env fresh_featurizer office_dataset
                                          ['''', ''   ''] [0, 1]))) = None"
proof -
  have h: "list_all (\<lambda>q. concat (tokenize_light test_env q (language fresh_featurizer)) = [])
             ['''', ''   '']"
    using blank_queries by (simp add: fresh_language)
  have v: "vocabulary (tfidf_vectorizer fresh_featurizer) = None"
    by (simp add: fresh_featurizer_def Featurizer_init_def get_tfidf_vectorizer_def)
  show ?thesis
    using h v empty_corpus_short_circuit [OF h, of office_dataset "[0, 1]"] by simp
qed

text \<open>
  C9. When every query tokenizes to an empty token join, \<open>fit\<close> returns \<open>None\<close> and
  \<open>fit_transform\<close>, calling \<open>transform\<close> on that result, raises \<open>AttributeError\<close>
  instead of returning a matrix.
\<close>

theorem fit_transform_empty_corpus_fails:
  assumes "list_all (\<lambda>q. concat (tokenize_light e q (language self)) = []) queries"
  shows "snd (fit_transform e self ds queries y) = Inl AttributeError
         \<and> snd (fit e self ds queries y) = Inr ReturnsNone"
  by (simp add: fit_transform_def fit_empty [OF assms])

theorem fit_transform_empty_corpus_fails_witness:
  "list_all (\<lambda>q. concat (tokenize_light test_env q (language fresh_featurizer)) = []) ['''', ''   '']
   \<and> snd (fit_transform test_env fresh_featurizer office_dataset ['''', ''   ''] [0, 1]) =
       Inl AttributeError"
proof -
  have h: "list_all (\<lambda>q. concat (tokenize_light test_env q (language fresh_featurizer)) = [])
             ['''', ''   '']"
    using blank_queries by (simp add: fresh_language)
  show ?thesis
    using h fit_transform_empty_corpus_fails [OF h, of office_dataset "[0, 1]"] by simp
qed

text \<open>
  C10. On the empty-corpus path \<open>fit\<close> returns \<open>None\<close> and yet leaves the featurizer
  changed: its lexicon is the one derived from the new dataset. Every other attribute,
  \<open>best_features\<close>, \<open>pvalue_threshold\<close> and the vectorizer's vocabulary and weights among
  them, is as before.
\<close>

theorem fit_empty_corpus_frame:
  assumes "list_all (\<lambda>q. concat (tokenize_light e q (language self)) = []) queries"
  shows "fst (fit e self ds queries y) =
           self\<lparr>entity_utterances_to_feature_names :=
                  Some (fit_entity_lexicon e (language self)
                          (unknown_words_replacement_string self) ds)\<rparr>
         \<and> snd (fit e self ds queries y) = Inr ReturnsNone
         \<and> best_features (fst (fit e self ds queries y)) = best_features self
         \<and> pvalue_threshold (fst (fit e self ds queries y)) = pvalue_threshold self
         \<and> vocabulary (tfidf_vectorizer (fst (fit e self ds queries y))) =
             vocabulary (tfidf_vectorizer self)
         \<and> idf_diag (tfidf (tfidf_vectorizer (fst (fit e self ds queries y)))) =
             idf_diag (tfidf (tfidf_vectorizer self))"
  by (simp add: fit_empty [OF assms])

lemma sublinear_language: "language sublinear_featurizer = ''en''"
  by (simp add: sublinear_featurizer_def Featurizer_init_def Let_def)

theorem fit_empty_corpus_frame_witness:
  "list_all (\<lambda>q. concat (tokenize_light test_env q (language sublinear_featurizer)) = [])
     ['''', ''   '']
   \<and> entity_utterances_to_feature_names sublinear_featurizer = Some []
   \<and> fst (fit test_env sublinear_featurizer office_dataset ['''', ''   ''] [0, 1]) =
       sublinear_featurizer\<lparr>entity_utterances_to_feature_names :=
                              Some [(''the office'', {''entityfeaturethe_office''})]\<rparr>"
proof -
  have h: "list_all (\<lambda>q. concat (tokenize_light test_env q (language sublinear_featurizer)) = [])
             ['''', ''   '']"
    using blank_queries by (simp add: sublinear_language)
  have l: "entity_utterances_to_feature_names sublinear_featurizer = Some []"
    by (simp add: sublinear_featurizer_def Let_def)
  have u: "unknown_words_replacement_string sublinear_featurizer = Some ''unknownword''"
    by (simp add: sublinear_featurizer_def Featurizer_init_def Let_def)
  show ?thesis
    using h l fit_empty_corpus_frame [OF h, of office_dataset "[0, 1]"]
    by (simp add: sublinear_language u office_lexicon_unknown)
qed

section \<open>The preprocessed string\<close>

lemma entities_loop_eq:
  "entities_loop (Some d) ngrams acc =
     Inr (acc @ concat (map (\<lambda>g. case map_of d (NGRAM g) of
                                   None \<Rightarrow> []
                                 | Some names \<Rightarrow> sorted_list_of_set names) ngrams))"
  by (induction ngrams arbitrary: acc) (auto split: option.splits)

lemma word_cluster_loop_eq:
  "get_word_clusters e lang cluster_name = Some clusters \<Longrightarrow>
   word_cluster_loop e lang cluster_name ngrams acc =
     Inr (acc @ List.map_filter (\<lambda>g. clusters (str_lower e (NGRAM g))) ngrams)"
  by (induction ngrams arbitrary: acc) (auto split: option.splits)

lemma get_word_cluster_features_eq:
  assumes "cluster_resource_present e lang"
  shows "get_word_cluster_features e query_tokens lang =
           Inr (case configured_clusters e lang of
                  None \<Rightarrow> []
                | Some clusters \<Rightarrow>
                    List.map_filter (\<lambda>g. clusters (str_lower e (NGRAM g)))
                      (get_all_ngrams e query_tokens))"
  using assms
  by (auto simp: get_word_cluster_features_def cluster_resource_present_def
        configured_clusters_def word_cluster_loop_eq split: option.splits)

lemma sort_Nil_iff: "sort xs = [] \<longleftrightarrow> xs = []"
  by (metis length_0_conv length_sort)

lemma normalize_stem_spec: "normalize_stem e t lang = spec_normalized_stemmed e lang t"
  by (simp add: normalize_stem_def spec_normalized_stemmed_def Let_def split: option.splits)

text \<open>
  C7. With an entity lexicon at hand, and the cluster resource present for a language
  that is configured with one, \<open>_preprocess_query\<close> returns the string the specification
  describes: the separator-joined normalized-then-stemmed tokens, then, only when there
  are any, a space and the space-joined sorted entity features of the n-grams of those
  tokens, then, only when there are any, a space and the space-joined sorted cluster
  features of the lower-cased n-grams of the raw tokens.
\<close>

theorem preprocess_query_structure:
  assumes "cluster_resource_present e lang"
  shows "preprocess_query e query lang (Some lexicon) =
           Inr (spec_preprocessed e lang lexicon query)"
proof -
  have n: "(\<lambda>t. normalize_stem e t lang) = spec_normalized_stemmed e lang"
    by (rule ext) (rule normalize_stem_spec)
  show ?thesis
    unfolding preprocess_query_def spec_preprocessed_def get_dataset_entities_features_def
      spec_entity_features_def spec_cluster_features_def
      get_word_cluster_features_eq [OF assms] entities_loop_eq n
    by (simp add: Let_def sort_Nil_iff split: option.splits)
qed

lemma cluster_env_present: "cluster_resource_present cluster_env ''en''"
  by (simp add: cluster_resource_present_def cluster_env_def test_env_def)

lemma ngrams4:
  "contiguous_ngrams [a, b, c, d] =
     map (\<lambda>g. \<lparr>NGRAM = g\<rparr>)
       [a, a @ '' '' @ b, a @ '' '' @ b @ '' '' @ c, a @ '' '' @ b @ '' '' @ c @ '' '' @ d,
        b, b @ '' '' @ c, b @ '' '' @ c @ '' '' @ d, c, c @ '' '' @ d, d]"
  by (simp add: contiguous_ngrams_def upt_rec [of _ "Suc _"])

theorem preprocess_query_structure_witness:
  "cluster_resource_present cluster_env ''en''
   \<and> preprocess_query cluster_env ''Go to the Offices'' ''en''
       (Some [(''the office'', {''entityfeaturethe_office''})]) =
     Inr ''go to the office entityfeaturethe_office 0100 1011''"
proof -
  have v: "spec_preprocessed cluster_env ''en'' [(''the office'', {''entityfeaturethe_office''})]
             ''Go to the Offices'' = ''go to the office entityfeaturethe_office 0100 1011''"
    by (simp add: spec_preprocessed_def spec_normalized_stemmed_def spec_entity_features_def
          spec_cluster_features_def configured_clusters_def cluster_env_def test_env_def
          ascii_lower_def lower_char_def drop_final_s_def ngrams4)
  show ?thesis
    using cluster_env_present preprocess_query_structure [OF cluster_env_present] v by simp
qed

section \<open>Serialization\<close>

subsection \<open>The round trip\<close>

text \<open>
  A featurizer built by the constructor with the default \<open>sublinear_tf=False\<close> and fitted
  (vocabulary, weights and a lexicon of finite sets in place) is what \<open>from_dict\<close> makes of
  its snapshot, in any environment.
\<close>

lemma lexicon_round_trip:
  "list_all (\<lambda>(k, v). finite v) lexicon \<Longrightarrow>
   map ((\<lambda>(k, v). (k, set v)) \<circ> (\<lambda>(k, v). (k, sorted_list_of_set v))) lexicon = lexicon"
  by (induction lexicon) auto

lemma round_trip_identity:
  assumes vec: "tfidf_vectorizer self =
                  (get_tfidf_vectorizer e (language self) (config_to_dict (config self)))
                    \<lparr>vocabulary := Some vocab,
                     tfidf := (tfidf (get_tfidf_vectorizer e (language self)
                                        (config_to_dict (config self))))
                                \<lparr>idf_diag := Some idf\<rparr>\<rparr>"
    and lex: "entity_utterances_to_feature_names self = Some lexicon"
    and fin: "list_all (\<lambda>(k, v). finite v) lexicon"
    and cfg: "\<not> sublinear_tf (config self)"
  shows "round_trip e self = Inr self"
proof -
  have "round_trip e self =
          Inr \<lparr>config = config self, language = language self,
               tfidf_vectorizer = tfidf_vectorizer self,
               best_features = best_features self,
               pvalue_threshold = pvalue_threshold self,
               entity_utterances_to_feature_names = entity_utterances_to_feature_names self,
               unknown_words_replacement_string = unknown_words_replacement_string self\<rparr>"
    using cfg
    by (simp add: round_trip_def to_dict_def from_dict_def deserialize_tfidf_vectorizer_def vec lex
          lexicon_round_trip [OF fin] Featurizer_init_def get_tfidf_vectorizer_def
          config_to_dict_def config_from_dict_def TfidfTransformer_def Let_def)
  then show ?thesis by simp
qed

lemma ngrams3:
  "contiguous_ngrams [a, b, c] =
     map (\<lambda>g. \<lparr>NGRAM = g\<rparr>) [a, a @ '' '' @ b, a @ '' '' @ b @ '' '' @ c, b, b @ '' '' @ c, c]"
  by (simp add: contiguous_ngrams_def upt_rec [of _ "Suc _"])

lemma sublinear_preprocessed: "preprocess_queries test_env sublinear_featurizer [''turn turn lights''] = Inr [''turn turn light'']"
  by (simp add: sublinear_featurizer_def Featurizer_init_def Let_def preprocess_query_def
      get_word_cluster_features_def get_dataset_entities_features_def test_env_def normalize_stem_def
      ascii_lower_def lower_char_def drop_final_s_def ngrams3)

lemma count_row_turn: "count_row ascii_lower (\<lambda>x. tokenize_light test_env x ''en'')
             [(''light'', 0), (''turn'', 1), (''weather'', 2)] ''turn turn light'' = [1, 2, 0]"
  by (simp add: count_row_def test_env_def ascii_lower_def lower_char_def upt_rec [of _ "Suc _"])


lemma test_env_transform: "vectorizer_transform test_env = sklearn_transform ascii_lower"
  by (simp add: test_env_def)

lemma sub_vec:
  "tfidf_vectorizer sublinear_featurizer =
     \<lparr>tokenizer = (\<lambda>x. tokenize_light test_env x ''en''),
      vocabulary = Some [(''light'', 0), (''turn'', 1), (''weather'', 2)],
      tfidf = \<lparr>tt_norm = Some L2, tt_use_idf = True, tt_smooth_idf = True, tt_sublinear_tf = True,
               idf_diag = Some [ln (3 / 2) + 1, ln (3 / 2) + 1, ln (3 / 2) + 1]\<rparr>\<rparr>"
  by (simp add: sublinear_featurizer_def Featurizer_init_def Let_def get_tfidf_vectorizer_def
        config_to_dict_def)

lemma sub_best: "best_features sublinear_featurizer = Some [1, 2]"
  by (simp add: sublinear_featurizer_def Let_def)


lemma sklearn_transform_turn:
  "sklearn_transform ascii_lower
     \<lparr>tokenizer = (\<lambda>x. tokenize_light test_env x ''en''),
      vocabulary = Some [(''light'', 0), (''turn'', 1), (''weather'', 2)],
      tfidf = t\<rparr> [''turn turn light''] =
   tfidf_transformer_transform t [[1, 2, 0]]"
  unfolding sklearn_transform_def by (simp only: tfidf_vectorizer.simps option.case list.map count_row_turn)

lemma transformer_row:
  "tfidf_transformer_transform
     \<lparr>tt_norm = Some L2, tt_use_idf = True, tt_smooth_idf = True, tt_sublinear_tf = b,
      idf_diag = Some [w, w, w]\<rparr> [[1, 2, 0]] =
   Inr [normalize_row L2 [w, (if b then ln 2 + 1 else 2) * w, 0]]"
  by (simp add: tfidf_transformer_transform_def)

lemma l2_row:
  assumes w: "0 < w" and k: "0 < k"
  shows "normalize_row L2 [w, k * w, 0] = [1 / sqrt (k\<^sup>2 + 1), k / sqrt (k\<^sup>2 + 1), 0]"
proof -
  have "w * w + k * w * (k * w) = (k\<^sup>2 + 1) * w\<^sup>2" by (simp add: power2_eq_square algebra_simps)
  then have n: "row_norm L2 [w, k * w, 0] = sqrt (k\<^sup>2 + 1) * w"
    using w by (simp add: row_norm_def real_sqrt_mult)
  have "0 < k\<^sup>2 + 1" by (rule add_nonneg_pos) simp_all
  then have pos: "0 < sqrt (k\<^sup>2 + 1)" by simp
  then have nz: "sqrt (k\<^sup>2 + 1) * w \<noteq> 0" using w by simp
  show ?thesis
    unfolding normalize_row_def n using nz w by (simp add: field_simps)
qed

lemma select_columns_pair: "select_columns [[a, b, c]] (Some [1, 2]) = Inr [[b, c]]"
  by (simp add: select_columns_def)

lemma idf_pos: "0 < ln (3 / 2) + (1::real)"
  by (simp add: add_pos_pos)

lemma sublinear_transform: "transform test_env sublinear_featurizer [''turn turn lights''] =
    Inr [[(ln 2 + 1) / sqrt ((ln 2 + 1)\<^sup>2 + 1), 0]]"
proof -
  have k: "0 < ln 2 + (1::real)" by (simp add: add_pos_pos)
  show ?thesis
    apply (simp only: transform_def sublinear_preprocessed test_env_transform sub_vec sub_best sum.case)
    apply (simp only: sklearn_transform_turn)
    apply (simp only: transformer_row)
    apply (simp only: sum.case if_True l2_row [OF idf_pos k] select_columns_pair)
    done
qed


lemma restored_vec:
  "tfidf_vectorizer restored_featurizer =
     \<lparr>tokenizer = (\<lambda>x. tokenize_light test_env x ''en''),
      vocabulary = Some [(''light'', 0), (''turn'', 1), (''weather'', 2)],
      tfidf = \<lparr>tt_norm = Some L2, tt_use_idf = True, tt_smooth_idf = True, tt_sublinear_tf = False,
               idf_diag = Some [ln (3 / 2) + 1, ln (3 / 2) + 1, ln (3 / 2) + 1]\<rparr>\<rparr>"
  by (simp add: restored_featurizer_def sub_vec TfidfTransformer_def)

lemma restored_best: "best_features restored_featurizer = Some [1, 2]"
  by (simp add: restored_featurizer_def sub_best)

lemma restored_preprocessed:
  "preprocess_queries test_env restored_featurizer [''turn turn lights''] =
   Inr [''turn turn light'']"
  by (simp add: restored_featurizer_def sublinear_featurizer_def Featurizer_init_def Let_def
      preprocess_query_def get_word_cluster_features_def get_dataset_entities_features_def
      test_env_def normalize_stem_def ascii_lower_def lower_char_def drop_final_s_def ngrams3)

lemma restored_transform:
  "transform test_env restored_featurizer [''turn turn lights''] = Inr [[2 / sqrt 5, 0]]"
proof -
  have k: "0 < (2::real)" by simp
  have "transform test_env restored_featurizer [''turn turn lights''] =
        Inr [[2 / sqrt (2\<^sup>2 + 1), 0]]"
    apply (simp only: transform_def restored_preprocessed test_env_transform restored_vec restored_best sum.case)
    apply (simp only: sklearn_transform_turn)
    apply (simp only: transformer_row)
    apply (simp only: sum.case if_False l2_row [OF idf_pos k] select_columns_pair)
    done
  then show ?thesis by simp
qed

lemma round_trip_sublinear: "round_trip test_env sublinear_featurizer = Inr restored_featurizer"
  by (simp add: round_trip_def to_dict_def from_dict_def deserialize_tfidf_vectorizer_def
        restored_featurizer_def sublinear_featurizer_def Featurizer_init_def Let_def
        get_tfidf_vectorizer_def config_to_dict_def config_from_dict_def TfidfTransformer_def)

lemma sublinear_weight_differs: "(ln 2 + 1) / sqrt ((ln 2 + 1)\<^sup>2 + 1) \<noteq> 2 / sqrt (5::real)"
proof
  let ?k = "ln 2 + (1::real)"
  assume eq: "?k / sqrt (?k\<^sup>2 + 1) = 2 / sqrt 5"
  have kpos: "0 < ?k" by (simp add: add_pos_pos)
  have "(?k / sqrt (?k\<^sup>2 + 1))\<^sup>2 = ?k\<^sup>2 / (?k\<^sup>2 + 1)"
    by (simp add: power_divide)
  moreover have "(2 / sqrt (5::real))\<^sup>2 = 4 / 5"
    by (simp add: power_divide)
  ultimately have "?k\<^sup>2 / (?k\<^sup>2 + 1) = 4 / 5" using eq by simp
  moreover have "?k\<^sup>2 + 1 \<noteq> 0" by (simp add: add_nonneg_eq_0_iff)
  ultimately have "?k\<^sup>2 = 2\<^sup>2" by (simp add: field_simps)
  then have "?k = 2 \<or> ?k = - 2" by (simp only: power2_eq_iff)
  then have "?k = 2" using kpos by linarith
  then have "ln (2::real) = 1" by simp
  then show False using ln_2_less_1 by simp
qed

text \<open>
  C1. The round trip does not preserve \<open>transform\<close>. For the featurizer fitted with
  \<open>sublinear_tf=True\<close>, \<open>from_dict(to_dict())\<close> succeeds and restores everything but the
  transformer, which comes back with \<open>sublinear_tf=False\<close>; on the query
  \<open>turn turn lights\<close> both featurizers return a matrix, and the entries for \<open>turn\<close>
  differ.
\<close>

theorem round_trip_loses_sublinear_tf:
  "round_trip test_env sublinear_featurizer = Inr restored_featurizer
   \<and> transform test_env sublinear_featurizer [''turn turn lights''] =
       Inr [[(ln 2 + 1) / sqrt ((ln 2 + 1)\<^sup>2 + 1), 0]]
   \<and> transform test_env restored_featurizer [''turn turn lights''] = Inr [[2 / sqrt 5, 0]]
   \<and> transform test_env restored_featurizer [''turn turn lights''] \<noteq>
       transform test_env sublinear_featurizer [''turn turn lights'']"
  using sublinear_weight_differs
  by (simp add: round_trip_sublinear sublinear_transform restored_transform)

subsection \<open>Malformed snapshots\<close>

text \<open>
  C5, as stated, fails: a snapshot with every key, two vocabulary tokens and one weight is
  not rejected. \<open>from_dict\<close> returns a featurizer with a vocabulary of size two and one
  weight.
\<close>

theorem mismatched_snapshot_accepted:
  "from_dict test_env mismatched_snapshot = Inr mismatched_featurizer
   \<and> map_option length (vocabulary (tfidf_vectorizer mismatched_featurizer)) = Some 2
   \<and> map_option length (idf_diag (tfidf (tfidf_vectorizer mismatched_featurizer))) = Some 1"
  by (simp add: from_dict_def deserialize_tfidf_vectorizer_def mismatched_snapshot_def
        mismatched_featurizer_def Featurizer_init_def get_tfidf_vectorizer_def
        config_to_dict_def config_from_dict_def TfidfTransformer_def Let_def)

text \<open>The mismatch shows only later, when \<open>transform\<close> multiplies by the weights.\<close>

lemma mismatched_featurizer_transform:
  "transform test_env mismatched_featurizer [''turn''] = Inl ValueError"
  by (simp add: transform_def mismatched_featurizer_def Featurizer_init_def preprocess_query_def
        get_word_cluster_features_def get_dataset_entities_features_def test_env_def
        normalize_stem_def ascii_lower_def lower_char_def drop_final_s_def contiguous_ngrams_def
        sklearn_transform_def count_row_def tfidf_transformer_transform_def TfidfTransformer_def
        upt_rec [of _ "Suc _"])

lemma from_dict_missing:
  "missing_required_key d \<Longrightarrow> \<exists>err. from_dict e d = Inl err"
  by (auto simp: missing_required_key_def from_dict_def deserialize_tfidf_vectorizer_def Let_def
        split: option.splits sum.splits)

lemma from_dict_present:
  assumes "\<not> missing_required_key d"
    and "d_tfidf_vectorizer d = Some vd"
    and "vd_vocab vd = Some (Some vocab)"
    and "vd_idf_diag vd = Some (Some idf)"
  shows "\<exists>f. from_dict e d = Inr f
           \<and> vocabulary (tfidf_vectorizer f) = Some vocab
           \<and> idf_diag (tfidf (tfidf_vectorizer f)) = Some idf"
  using assms
  by (auto simp: missing_required_key_def from_dict_def deserialize_tfidf_vectorizer_def Let_def
        Featurizer_init_def split: option.splits sum.splits)

text \<open>
  C5, amended. \<open>from_dict\<close> fails on every snapshot that lacks a key it reads. It compares
  no sizes: a snapshot with those keys, a vocabulary and weights is reconstructed with
  exactly that vocabulary and those weights, whatever their sizes.
\<close>

theorem from_dict_checks_keys_only:
  "(missing_required_key d \<longrightarrow> (\<exists>err. from_dict e d = Inl err))
   \<and> (\<not> missing_required_key d \<longrightarrow>
        (\<forall>vd vocab idf.
           d_tfidf_vectorizer d = Some vd \<and> vd_vocab vd = Some (Some vocab)
             \<and> vd_idf_diag vd = Some (Some idf) \<longrightarrow>
           (\<exists>f. from_dict e d = Inr f
              \<and> vocabulary (tfidf_vectorizer f) = Some vocab
              \<and> idf_diag (tfidf (tfidf_vectorizer f)) = Some idf)))"
  using from_dict_missing from_dict_present by blast

theorem from_dict_checks_keys_only_witness:
  "missing_required_key (mismatched_snapshot\<lparr>d_pvalue_threshold := None\<rparr>)
   \<and> from_dict test_env (mismatched_snapshot\<lparr>d_pvalue_threshold := None\<rparr>) = Inl KeyError
   \<and> \<not> missing_required_key
        (mismatched_snapshot\<lparr>d_tfidf_vectorizer :=
           Some \<lparr>vd_vocab = Some (Some [(''light'', 0), (''turn'', 1)]),
                 vd_idf_diag = Some (Some [1, 1])\<rparr>\<rparr>)
   \<and> map_sum id (\<lambda>f. (vocabulary (tfidf_vectorizer f), idf_diag (tfidf (tfidf_vectorizer f))))
       (from_dict test_env
          (mismatched_snapshot\<lparr>d_tfidf_vectorizer :=
             Some \<lparr>vd_vocab = Some (Some [(''light'', 0), (''turn'', 1)]),
                   vd_idf_diag = Some (Some [1, 1])\<rparr>\<rparr>)) =
     Inr (Some [(''light'', 0), (''turn'', 1)], Some [1, 1])"
proof -
  let ?bad = "mismatched_snapshot\<lparr>d_pvalue_threshold := None\<rparr>"
  let ?vd = "\<lparr>vd_vocab = Some (Some [(''light'', 0), (''turn'', 1 :: nat)]),
              vd_idf_diag = Some (Some [1, 1 :: real])\<rparr>"
  let ?good = "mismatched_snapshot\<lparr>d_tfidf_vectorizer := Some ?vd\<rparr>"
  have m: "missing_required_key ?bad"
    by (simp add: missing_required_key_def mismatched_snapshot_def)
  have g: "\<not> missing_required_key ?good"
    by (simp add: missing_required_key_def mismatched_snapshot_def)
  have b: "from_dict test_env ?bad = Inl KeyError"
    using m from_dict_checks_keys_only [of ?bad test_env]
    by (simp add: from_dict_def deserialize_tfidf_vectorizer_def mismatched_snapshot_def Let_def)
  have "\<exists>f. from_dict test_env ?good = Inr f
          \<and> vocabulary (tfidf_vectorizer f) = Some [(''light'', 0), (''turn'', 1)]
          \<and> idf_diag (tfidf (tfidf_vectorizer f)) = Some [1, 1]"
    using g from_dict_checks_keys_only [of ?good test_env] by simp
  then show ?thesis using m g b by auto
qed



end
